theory Spec2Isabelle
  imports Complex_Main "HOL-Library.Word"
begin

section \<open>Doubles\<close>

text \<open>
  The accessors of \<^verbatim>\<open>vw/Camera/Exif.cc\<close> compute on C++ \<^verbatim>\<open>double\<close>s. A double is
  modelled as a real number or one of the special values of IEEE 754: the negative
  zero, the two infinities and NaN. \<open>Finite 0\<close> is the positive zero. The special
  values follow IEEE 754 and Annex F of the C standard, so that a division by zero, a
  logarithm of a non-positive number and a comparison with NaN give what the program
  gives. Finite arithmetic is exact: rounding, overflow and underflow of finite
  results are not part of the model. Statements about every store are therefore made
  through these operations: they say which operations a query applies to which values
  and which error it signals, not which number an operation returns.
\<close>

datatype double = Finite real | MinusZero | PlusInf | MinusInf | NaN

fun isnan :: "double \<Rightarrow> bool" where
  "isnan NaN = True"
| "isnan _ = False"

fun isinf :: "double \<Rightarrow> bool" where
  "isinf PlusInf = True"
| "isinf MinusInf = True"
| "isinf _ = False"

fun signbit :: "double \<Rightarrow> bool" where
  "signbit (Finite x) = (x < 0)"
| "signbit MinusZero = True"
| "signbit PlusInf = False"
| "signbit MinusInf = True"
| "signbit NaN = False"

text \<open>The real value of a double that is neither infinite nor NaN.\<close>

fun val :: "double \<Rightarrow> real" where
  "val (Finite x) = x"
| "val _ = 0"

definition iszero :: "double \<Rightarrow> bool" where
  "iszero a = (\<not> isnan a \<and> \<not> isinf a \<and> val a = 0)"

definition zero_of :: "bool \<Rightarrow> double" where
  "zero_of neg = (if neg then MinusZero else Finite 0)"

definition inf_of :: "bool \<Rightarrow> double" where
  "inf_of neg = (if neg then MinusInf else PlusInf)"

text \<open>The double of a finite result \<open>r\<close>; a zero result takes the sign \<open>neg\<close>.\<close>

definition finite_of :: "bool \<Rightarrow> real \<Rightarrow> double" where
  "finite_of neg r = (if r = 0 then zero_of neg else Finite r)"

definition double_neg :: "double \<Rightarrow> double" where
  "double_neg a =
     (if isnan a then NaN
      else if isinf a then inf_of (\<not> signbit a)
      else finite_of (\<not> signbit a) (- val a))"

definition double_mul :: "double \<Rightarrow> double \<Rightarrow> double" where
  "double_mul a b =
     (if isnan a \<or> isnan b then NaN
      else if (isinf a \<and> iszero b) \<or> (iszero a \<and> isinf b) then NaN
      else if isinf a \<or> isinf b then inf_of (signbit a \<noteq> signbit b)
      else finite_of (signbit a \<noteq> signbit b) (val a * val b))"

definition double_div :: "double \<Rightarrow> double \<Rightarrow> double" where
  "double_div a b =
     (if isnan a \<or> isnan b then NaN
      else if (isinf a \<and> isinf b) \<or> (iszero a \<and> iszero b) then NaN
      else if isinf a \<or> iszero b then inf_of (signbit a \<noteq> signbit b)
      else if isinf b then zero_of (signbit a \<noteq> signbit b)
      else finite_of (signbit a \<noteq> signbit b) (val a / val b))"

definition double_add :: "double \<Rightarrow> double \<Rightarrow> double" where
  "double_add a b =
     (if isnan a \<or> isnan b then NaN
      else if isinf a \<and> isinf b then (if signbit a = signbit b then a else NaN)
      else if isinf a then a
      else if isinf b then b
      else finite_of (signbit a \<and> signbit b) (val a + val b))"

definition double_sub :: "double \<Rightarrow> double \<Rightarrow> double" where
  "double_sub a b = double_add a (double_neg b)"

text \<open>The comparisons \<^verbatim>\<open><\<close>, \<^verbatim>\<open><=\<close> and \<^verbatim>\<open>==\<close>: false when an operand is NaN; the two zeros
  are equal.\<close>

definition double_less :: "double \<Rightarrow> double \<Rightarrow> bool" where
  "double_less a b =
     (\<not> isnan a \<and> \<not> isnan b \<and>
      (if isinf a then a = MinusInf \<and> b \<noteq> MinusInf
       else if isinf b then b = PlusInf
       else val a < val b))"

definition double_le :: "double \<Rightarrow> double \<Rightarrow> bool" where
  "double_le a b =
     (\<not> isnan a \<and> \<not> isnan b \<and>
      (if isinf a \<or> isinf b then a = MinusInf \<or> b = PlusInf
       else val a \<le> val b))"

definition double_eq :: "double \<Rightarrow> double \<Rightarrow> bool" where
  "double_eq a b =
     (\<not> isnan a \<and> \<not> isnan b \<and>
      (if isinf a \<or> isinf b then a = b else val a = val b))"

text \<open>
  The functions of \<^verbatim>\<open><math.h>\<close> the file calls. \<^verbatim>\<open>pow\<close> is only ever called with
  the base \<^verbatim>\<open>2.0\<close>; \<open>pow_2 y\<close> is \<^verbatim>\<open>pow(2.0, y)\<close>.
\<close>

definition pow_2 :: "double \<Rightarrow> double" where
  "pow_2 y =
     (if isnan y then NaN
      else if isinf y then (if signbit y then Finite 0 else PlusInf)
      else Finite (2 powr val y))"

definition log_double :: "double \<Rightarrow> double" where
  "log_double x =
     (if isnan x then NaN
      else if iszero x then MinusInf
      else if signbit x then NaN
      else if isinf x then PlusInf
      else Finite (ln (val x)))"

definition sqrt_double :: "double \<Rightarrow> double" where
  "sqrt_double x =
     (if isnan x then NaN
      else if iszero x then x
      else if signbit x then NaN
      else if isinf x then PlusInf
      else Finite (sqrt (val x)))"

definition hypot :: "double \<Rightarrow> double \<Rightarrow> double" where
  "hypot x y =
     (if isinf x \<or> isinf y then PlusInf
      else if isnan x \<or> isnan y then NaN
      else Finite (sqrt ((val x)\<^sup>2 + (val y)\<^sup>2)))"

section \<open>The tag store and the errors\<close>

text \<open>
  Modelled from the spec: the class \<^verbatim>\<open>ExifData\<close> of the member \<^verbatim>\<open>m_data\<close> is declared
  outside \<^verbatim>\<open>Exif.cc\<close>. The file reads it through \<^verbatim>\<open>get_tag_value(tag, value)\<close>, overloaded
  for \<^verbatim>\<open>int\<close>, \<^verbatim>\<open>double\<close> and \<^verbatim>\<open>std::string\<close>, which returns whether the tag was read
  and fills \<^verbatim>\<open>value\<close> only then: per type, a partial function of the 16-bit tag id.
  A C++ \<^verbatim>\<open>int\<close> is a 32-bit word, read as two's complement.
\<close>

record ExifData =
  get_tag_value_int :: "16 word \<Rightarrow> 32 word option"
  get_tag_value_double :: "16 word \<Rightarrow> double option"
  get_tag_value_string :: "16 word \<Rightarrow> string option"

text \<open>
  Modelled from the spec: the tag ids are declared in \<^verbatim>\<open>Exif.h\<close>, which names the
  tags of the EXIF 2.2 standard; the values are the standard's.
\<close>

definition EXIF_Make :: "16 word" where "EXIF_Make = 0x010F"
definition EXIF_Model :: "16 word" where "EXIF_Model = 0x0110"
definition EXIF_ExposureTime :: "16 word" where "EXIF_ExposureTime = 0x829A"
definition EXIF_FNumber :: "16 word" where "EXIF_FNumber = 0x829D"
definition EXIF_ISOSpeedRatings :: "16 word" where "EXIF_ISOSpeedRatings = 0x8827"
definition EXIF_ShutterSpeedValue :: "16 word" where "EXIF_ShutterSpeedValue = 0x9201"
definition EXIF_ApertureValue :: "16 word" where "EXIF_ApertureValue = 0x9202"
definition EXIF_BrightnessValue :: "16 word" where "EXIF_BrightnessValue = 0x9203"
definition EXIF_FocalLength :: "16 word" where "EXIF_FocalLength = 0x920A"
definition EXIF_PixelXDimension :: "16 word" where "EXIF_PixelXDimension = 0xA002"
definition EXIF_PixelYDimension :: "16 word" where "EXIF_PixelYDimension = 0xA003"
definition EXIF_FocalPlaneXResolution :: "16 word" where "EXIF_FocalPlaneXResolution = 0xA20E"
definition EXIF_FocalPlaneYResolution :: "16 word" where "EXIF_FocalPlaneYResolution = 0xA20F"
definition EXIF_FocalPlaneResolutionUnit :: "16 word" where "EXIF_FocalPlaneResolutionUnit = 0xA210"
definition EXIF_ExposureIndex :: "16 word" where "EXIF_ExposureIndex = 0xA215"
definition EXIF_FocalLengthIn35mmFilm :: "16 word" where "EXIF_FocalLengthIn35mmFilm = 0xA405"

text \<open>
  Every failure is a \<^verbatim>\<open>vw_throw(ExifErr() << message)\<close>. The constructors keep the
  three kinds of message apart:
  \<^item> \<open>TagNotFound tag\<close>: "Could not read EXIF tag: <tag>.", thrown by \<^verbatim>\<open>query_by_tag\<close>
    (the \<^verbatim>\<open>int\<close> overload writes it without the colon);
  \<^item> \<open>InvalidValue msg\<close>: the "Illegal value ..." messages;
  \<^item> \<open>InsufficientData msg\<close>: the "Insufficient EXIF information ..." messages.
\<close>

datatype ExifErr = TagNotFound "16 word" | InvalidValue string | InsufficientData string

definition query_by_tag_int :: "ExifData \<Rightarrow> 16 word \<Rightarrow> ExifErr + 32 word" where
  "query_by_tag_int m_data tag =
     (case get_tag_value_int m_data tag of
        Some v \<Rightarrow> Inr v
      | None \<Rightarrow> Inl (TagNotFound tag))"

definition query_by_tag_double :: "ExifData \<Rightarrow> 16 word \<Rightarrow> ExifErr + double" where
  "query_by_tag_double m_data tag =
     (case get_tag_value_double m_data tag of
        Some v \<Rightarrow> Inr v
      | None \<Rightarrow> Inl (TagNotFound tag))"

definition query_by_tag_string :: "ExifData \<Rightarrow> 16 word \<Rightarrow> ExifErr + string" where
  "query_by_tag_string m_data tag =
     (case get_tag_value_string m_data tag of
        Some v \<Rightarrow> Inr v
      | None \<Rightarrow> Inl (TagNotFound tag))"

section \<open>Camera info and camera settings\<close>

definition get_make :: "ExifData \<Rightarrow> ExifErr + string" where
  "get_make m_data = query_by_tag_string m_data EXIF_Make"

definition get_model :: "ExifData \<Rightarrow> ExifErr + string" where
  "get_model m_data = query_by_tag_string m_data EXIF_Model"

definition get_f_number :: "ExifData \<Rightarrow> ExifErr + double" where
  "get_f_number m_data =
     (case query_by_tag_double m_data EXIF_FNumber of
        Inr v \<Rightarrow> Inr v
      | Inl e \<Rightarrow>
          (case query_by_tag_double m_data EXIF_ApertureValue of
             Inl e' \<Rightarrow> Inl e'
           | Inr v \<Rightarrow> Inr (pow_2 (double_mul v (Finite 0.5)))))"

definition get_exposure_time :: "ExifData \<Rightarrow> ExifErr + double" where
  "get_exposure_time m_data =
     (case query_by_tag_double m_data EXIF_ExposureTime of
        Inr v \<Rightarrow> Inr v
      | Inl e \<Rightarrow>
          (case query_by_tag_double m_data EXIF_ShutterSpeedValue of
             Inl e' \<Rightarrow> Inl e'
           | Inr v \<Rightarrow> Inr (pow_2 (double_neg v))))"

definition get_iso :: "ExifData \<Rightarrow> ExifErr + double" where
  "get_iso m_data =
     (case query_by_tag_double m_data EXIF_ISOSpeedRatings of
        Inr v \<Rightarrow> Inr v
      | Inl e \<Rightarrow>
          (case query_by_tag_double m_data EXIF_ExposureIndex of
             Inl e' \<Rightarrow> Inl e'
           | Inr v \<Rightarrow> Inr v))"

section \<open>Focal length of the camera in mm, as if the image sensor were 36mm x 24mm\<close>

text \<open>
  The second half of \<^verbatim>\<open>get_focal_length_35mm_equiv\<close>, under its comment "Compute from
  various other statistics": the lookups and checks in the order of the source.
\<close>

definition compute_from_other_statistics :: "ExifData \<Rightarrow> ExifErr + double" where
  "compute_from_other_statistics m_data =
     (case query_by_tag_double m_data EXIF_FocalLength of Inl e \<Rightarrow> Inl e
      | Inr focal_length \<Rightarrow>
     (case query_by_tag_double m_data EXIF_PixelXDimension of Inl e \<Rightarrow> Inl e
      | Inr pixel_x_dimension \<Rightarrow>
     (case query_by_tag_double m_data EXIF_PixelYDimension of Inl e \<Rightarrow> Inl e
      | Inr pixel_y_dimension \<Rightarrow>
     (case query_by_tag_double m_data EXIF_FocalPlaneXResolution of Inl e \<Rightarrow> Inl e
      | Inr focal_plane_x_resolution \<Rightarrow>
     if double_le focal_plane_x_resolution (Finite 0)
     then Inl (InvalidValue ''Illegal value for FocalPlaneXResolution'') else
     (case query_by_tag_double m_data EXIF_FocalPlaneYResolution of Inl e \<Rightarrow> Inl e
      | Inr focal_plane_y_resolution \<Rightarrow>
     if double_le focal_plane_y_resolution (Finite 0)
     then Inl (InvalidValue ''Illegal value for FocalPlaneYResolution'') else
     let focal_plane_resolution_unit =
           (case query_by_tag_int m_data EXIF_FocalPlaneResolutionUnit of
              Inr u \<Rightarrow> u
            | Inl e \<Rightarrow> 2)
     in
     (case (if focal_plane_resolution_unit = 2 then Inr (Finite 25.4)
            else if focal_plane_resolution_unit = 3 then Inr (Finite 10)
            else Inl (InvalidValue ''Illegal value for FocalPlaneResolutionUnit'')) of
        Inl e \<Rightarrow> Inl e
      | Inr focal_plane_resolution_unit_in_mm \<Rightarrow>
     let x_pixel_size_in_mm = double_div focal_plane_resolution_unit_in_mm focal_plane_x_resolution;
         y_pixel_size_in_mm = double_div focal_plane_resolution_unit_in_mm focal_plane_y_resolution;
         sensor_width_in_mm = double_mul x_pixel_size_in_mm pixel_x_dimension;
         sensor_height_in_mm = double_mul y_pixel_size_in_mm pixel_y_dimension;
         sensor_diagonal_in_mm = hypot sensor_width_in_mm sensor_height_in_mm
     in
     if double_eq sensor_diagonal_in_mm (Finite 0)
     then Inl (InvalidValue ''Illegal value while computing 35mm equiv focal length'')
     else Inr (double_div
                 (double_mul focal_length
                    (sqrt_double (double_add (double_mul (Finite 36) (Finite 36))
                                             (double_mul (Finite 24) (Finite 24)))))
                 sensor_diagonal_in_mm)))))))"

definition get_focal_length_35mm_equiv :: "ExifData \<Rightarrow> ExifErr + double" where
  "get_focal_length_35mm_equiv m_data =
     (case query_by_tag_double m_data EXIF_FocalLengthIn35mmFilm of
        Inr v \<Rightarrow>
          if double_less (Finite 0) v then Inr v
          else compute_from_other_statistics m_data
      | Inl e \<Rightarrow> compute_from_other_statistics m_data)"

section \<open>APEX values\<close>







text \<open>The \<^verbatim>\<open>try\<close> block of \<^verbatim>\<open>get_average_luminance\<close>, with \<^verbatim>\<open>K = 12.5\<close>.\<close>

definition average_luminance_body :: "ExifData \<Rightarrow> ExifErr + double" where
  "average_luminance_body m_data =
     (let K = Finite 12.5 in
      case get_f_number m_data of
        Inl e \<Rightarrow> Inl e
      | Inr A \<Rightarrow>
          (case get_exposure_time m_data of
             Inl e \<Rightarrow> Inl e
           | Inr T \<Rightarrow>
               (case get_iso m_data of
                  Inl e \<Rightarrow> Inl e
                | Inr S \<Rightarrow>
                    let B = double_div (double_mul (double_mul A A) K) (double_mul T S)
                    in Inr B)))"

definition get_average_luminance :: "ExifData \<Rightarrow> ExifErr + double" where
  "get_average_luminance m_data =
     (case average_luminance_body m_data of
        Inr B \<Rightarrow> Inr B
      | Inl e \<Rightarrow>
          Inl (InsufficientData
            ''Insufficient EXIF information to compute average scene luminance.''))"

section \<open>The formulas as the specification words them\<close>

text \<open>
  The sensor diagonal and the scaling to the 36mm x 24mm reference sensor, following
  the specification: "per-axis physical pixel size = unit_mm / resolution; sensor
  width/height = pixel size x pixel dimension; sensor diagonal = hypot(width, height)",
  "sensor diagonal not 0", "result = focal_length x sqrt(36^2 + 24^2) /
  sensor_diagonal_mm". They are compared with the code below.
\<close>

definition spec_sensor_diagonal_mm ::
  "double \<Rightarrow> double \<Rightarrow> double \<Rightarrow> double \<Rightarrow> double \<Rightarrow> double" where
  "spec_sensor_diagonal_mm unit_mm x_resolution x_dimension y_resolution y_dimension =
     hypot (double_mul (double_div unit_mm x_resolution) x_dimension)
           (double_mul (double_div unit_mm y_resolution) y_dimension)"

definition spec_focal_length_35mm :: "double \<Rightarrow> double \<Rightarrow> double" where
  "spec_focal_length_35mm focal_length sensor_diagonal_mm =
     double_div (double_mul focal_length (sqrt_double (Finite (36\<^sup>2 + 24\<^sup>2))))
       sensor_diagonal_mm"

definition spec_scale_with_unit ::
  "double \<Rightarrow> double \<Rightarrow> double \<Rightarrow> double \<Rightarrow> double \<Rightarrow> double \<Rightarrow> ExifErr + double" where
  "spec_scale_with_unit unit_mm focal_length x_resolution x_dimension y_resolution y_dimension =
     (if double_eq
           (spec_sensor_diagonal_mm unit_mm x_resolution x_dimension y_resolution y_dimension)
           (Finite 0)
      then Inl (InvalidValue ''Illegal value while computing 35mm equiv focal length'')
      else Inr (spec_focal_length_35mm focal_length
             (spec_sensor_diagonal_mm unit_mm x_resolution x_dimension y_resolution
                y_dimension)))"

text \<open>
  The computed path of \<^verbatim>\<open>get_focal_length_35mm_equiv\<close> is the one taken when the tag
  FocalLengthIn35mmFilm is absent or its value is not greater than 0.
\<close>

definition computed_path :: "ExifData \<Rightarrow> bool" where
  "computed_path m_data =
     (case get_tag_value_double m_data EXIF_FocalLengthIn35mmFilm of
        None \<Rightarrow> True
      | Some v \<Rightarrow> \<not> double_less (Finite 0) v)"

section \<open>Stores for the examples\<close>

text \<open>A store holding the listed \<^verbatim>\<open>double\<close> and \<^verbatim>\<open>int\<close> tags and no text tag.\<close>

definition exif_store :: "(16 word \<times> double) list \<Rightarrow> (16 word \<times> 32 word) list \<Rightarrow> ExifData" where
  "exif_store ds ns =
     \<lparr>get_tag_value_int = map_of ns, get_tag_value_double = map_of ds,
      get_tag_value_string = Map.empty\<rparr>"

text \<open>
  FocalLength 50, PixelXDimension 4000, PixelYDimension 3000, FocalPlaneXResolution
  4000, FocalPlaneYResolution 3000, and the unit as given.
\<close>

definition sensor_tags :: "(16 word \<times> double) list" where
  "sensor_tags =
     [(EXIF_FocalLength, Finite 50), (EXIF_PixelXDimension, Finite 4000),
      (EXIF_PixelYDimension, Finite 3000), (EXIF_FocalPlaneXResolution, Finite 4000),
      (EXIF_FocalPlaneYResolution, Finite 3000)]"


text \<open>The example store with FocalLengthIn35mmFilm -35 added.\<close>

definition negative_35mm_store :: ExifData where
  "negative_35mm_store = exif_store
     ((EXIF_FocalLengthIn35mmFilm, Finite (- 35)) # sensor_tags)
     [(EXIF_FocalPlaneResolutionUnit, 2)]"

text \<open>
  FocalLength 50, PixelXDimension 4000, PixelYDimension 3000, FocalPlaneXResolution 0,
  and no FocalPlaneYResolution.
\<close>

definition zero_resolution_store :: ExifData where
  "zero_resolution_store = exif_store
     [(EXIF_FocalLength, Finite 50), (EXIF_PixelXDimension, Finite 4000),
      (EXIF_PixelYDimension, Finite 3000), (EXIF_FocalPlaneXResolution, Finite 0)] []"

section \<open>Facts about doubles and lookups\<close>

lemmas tag_defs =
  EXIF_Make_def EXIF_Model_def EXIF_ExposureTime_def EXIF_FNumber_def
  EXIF_ISOSpeedRatings_def EXIF_ShutterSpeedValue_def EXIF_ApertureValue_def
  EXIF_BrightnessValue_def EXIF_FocalLength_def EXIF_PixelXDimension_def
  EXIF_PixelYDimension_def EXIF_FocalPlaneXResolution_def EXIF_FocalPlaneYResolution_def
  EXIF_FocalPlaneResolutionUnit_def EXIF_ExposureIndex_def EXIF_FocalLengthIn35mmFilm_def

lemmas double_defs =
  double_neg_def double_mul_def double_div_def double_add_def double_sub_def
  double_less_def double_le_def double_eq_def iszero_def finite_of_def zero_of_def
  inf_of_def pow_2_def log_double_def sqrt_double_def hypot_def


lemma double_mul_Finite:
  "double_mul (Finite a) (Finite b) =
     (if a * b = 0 then zero_of ((a < 0) \<noteq> (b < 0)) else Finite (a * b))"
  by (simp add: double_mul_def iszero_def finite_of_def)

lemma double_add_Finite: "double_add (Finite a) (Finite b) = Finite (a + b)"
  by (auto simp add: double_add_def finite_of_def zero_of_def)

lemma division_by_zero_not_finite:
  "iszero T \<or> iszero S \<Longrightarrow>
   isinf (double_div N (double_mul T S)) \<or> isnan (double_div N (double_mul T S))"
  by (cases T; cases S; cases N)
     (auto simp add: double_div_def double_mul_def iszero_def finite_of_def zero_of_def
        inf_of_def)

lemma sqrt_reference_diagonal:
  "sqrt_double (double_add (double_mul (Finite 36) (Finite 36))
      (double_mul (Finite 24) (Finite 24))) = sqrt_double (Finite (36\<^sup>2 + 24\<^sup>2))"
  by (simp add: double_mul_Finite double_add_Finite)

section \<open>Camera settings: f-number, exposure value, average scene luminance\<close>







text \<open>
  C10. The division of \<^verbatim>\<open>get_average_luminance\<close> has no guard. When the three inputs
  are resolved and the exposure time or the ISO is zero, the query signals no error: it
  returns the quotient \<^verbatim>\<open>(A*A*12.5)/(T*S)\<close>, which is then an infinity or NaN.
\<close>

theorem get_average_luminance_unguarded:
  "get_f_number m = Inr A \<and> get_exposure_time m = Inr T \<and> get_iso m = Inr S \<and>
   (iszero T \<or> iszero S) \<longrightarrow>
     (\<exists>B. get_average_luminance m = Inr B \<and>
          B = double_div (double_mul (double_mul A A) (Finite 12.5)) (double_mul T S) \<and>
          (isinf B \<or> isnan B))"
proof
  assume h: "get_f_number m = Inr A \<and> get_exposure_time m = Inr T \<and> get_iso m = Inr S \<and>
   (iszero T \<or> iszero S)"
  then have "get_average_luminance m =
      Inr (double_div (double_mul (double_mul A A) (Finite 12.5)) (double_mul T S))"
    by (simp add: get_average_luminance_def average_luminance_body_def)
  with h division_by_zero_not_finite [of T S "double_mul (double_mul A A) (Finite 12.5)"]
  show "\<exists>B. get_average_luminance m = Inr B \<and>
          B = double_div (double_mul (double_mul A A) (Finite 12.5)) (double_mul T S) \<and>
          (isinf B \<or> isnan B)"
    by simp
qed

text \<open>FNumber 4, ExposureTime 0 and ISOSpeedRatings 100 give plus infinity.\<close>

theorem get_average_luminance_unguarded_witness:
  "get_f_number
     (exif_store [(EXIF_FNumber, Finite 4), (EXIF_ExposureTime, Finite 0),
        (EXIF_ISOSpeedRatings, Finite 100)] []) = Inr (Finite 4) \<and>
   get_exposure_time
     (exif_store [(EXIF_FNumber, Finite 4), (EXIF_ExposureTime, Finite 0),
        (EXIF_ISOSpeedRatings, Finite 100)] []) = Inr (Finite 0) \<and>
   get_iso
     (exif_store [(EXIF_FNumber, Finite 4), (EXIF_ExposureTime, Finite 0),
        (EXIF_ISOSpeedRatings, Finite 100)] []) = Inr (Finite 100) \<and>
   iszero (Finite 0) \<and>
   get_average_luminance
     (exif_store [(EXIF_FNumber, Finite 4), (EXIF_ExposureTime, Finite 0),
        (EXIF_ISOSpeedRatings, Finite 100)] []) = Inr PlusInf"
  using get_average_luminance_unguarded
      [where m = "exif_store [(EXIF_FNumber, Finite 4), (EXIF_ExposureTime, Finite 0),
          (EXIF_ISOSpeedRatings, Finite 100)] []"
        and A = "Finite 4" and T = "Finite 0" and S = "Finite 100"]
  by (simp add: exif_store_def tag_defs get_f_number_def get_exposure_time_def get_iso_def
      query_by_tag_double_def double_mul_Finite double_div_def iszero_def finite_of_def
      zero_of_def inf_of_def)

section \<open>Luminance value\<close>




section \<open>35mm-equivalent focal length\<close>

lemma get_focal_length_35mm_equiv_computed:
  "computed_path m \<Longrightarrow> get_focal_length_35mm_equiv m = compute_from_other_statistics m"
  by (simp add: computed_path_def get_focal_length_35mm_equiv_def query_by_tag_double_def
      split: option.splits)

text \<open>
  With the five tags present and both resolutions passing their check, what is left of
  the computed path is the choice of the unit and the scaling.
\<close>

lemma compute_from_other_statistics_unit:
  assumes "get_tag_value_double m EXIF_FocalLength = Some focal_length"
    and "get_tag_value_double m EXIF_PixelXDimension = Some x_dimension"
    and "get_tag_value_double m EXIF_PixelYDimension = Some y_dimension"
    and "get_tag_value_double m EXIF_FocalPlaneXResolution = Some x_resolution"
    and "get_tag_value_double m EXIF_FocalPlaneYResolution = Some y_resolution"
    and "\<not> double_le x_resolution (Finite 0)"
    and "\<not> double_le y_resolution (Finite 0)"
  shows "compute_from_other_statistics m =
     (case get_tag_value_int m EXIF_FocalPlaneResolutionUnit of
        None \<Rightarrow>
          spec_scale_with_unit (Finite 25.4) focal_length x_resolution x_dimension
            y_resolution y_dimension
      | Some u \<Rightarrow>
          if u = 2
          then spec_scale_with_unit (Finite 25.4) focal_length x_resolution x_dimension
                 y_resolution y_dimension
          else if u = 3
          then spec_scale_with_unit (Finite 10) focal_length x_resolution x_dimension
                 y_resolution y_dimension
          else Inl (InvalidValue ''Illegal value for FocalPlaneResolutionUnit''))"
  using assms
  by (simp add: compute_from_other_statistics_def query_by_tag_double_def
      query_by_tag_int_def Let_def spec_scale_with_unit_def spec_sensor_diagonal_mm_def
      spec_focal_length_35mm_def sqrt_reference_diagonal split: option.splits)

lemma sensor_tags_lookup:
  "map_of sensor_tags EXIF_FocalLengthIn35mmFilm = None"
  "map_of sensor_tags EXIF_FocalLength = Some (Finite 50)"
  "map_of sensor_tags EXIF_PixelXDimension = Some (Finite 4000)"
  "map_of sensor_tags EXIF_PixelYDimension = Some (Finite 3000)"
  "map_of sensor_tags EXIF_FocalPlaneXResolution = Some (Finite 4000)"
  "map_of sensor_tags EXIF_FocalPlaneYResolution = Some (Finite 3000)"
  by (simp_all add: sensor_tags_def tag_defs)

lemma sensor_diagonal_example:
  "spec_sensor_diagonal_mm (Finite u) (Finite 4000) (Finite 4000) (Finite 3000) (Finite 3000)
   = Finite (sqrt (u\<^sup>2 + u\<^sup>2))"
  by (simp add: spec_sensor_diagonal_mm_def double_defs)

lemma scale_example:
  "0 < u \<Longrightarrow>
   spec_scale_with_unit (Finite u) (Finite 50) (Finite 4000) (Finite 4000) (Finite 3000)
     (Finite 3000) = Inr (Finite (50 * sqrt 1872 / sqrt (u\<^sup>2 + u\<^sup>2)))"
  unfolding spec_scale_with_unit_def sensor_diagonal_example
  by (simp add: spec_focal_length_35mm_def double_defs)



lemma query_without_35mm_film:
  fixes m :: ExifData
  defines "m' \<equiv>
    m\<lparr>get_tag_value_double := (get_tag_value_double m)(EXIF_FocalLengthIn35mmFilm := None)\<rparr>"
  shows "query_by_tag_double m' EXIF_FocalLength = query_by_tag_double m EXIF_FocalLength"
    and "query_by_tag_double m' EXIF_PixelXDimension = query_by_tag_double m EXIF_PixelXDimension"
    and "query_by_tag_double m' EXIF_PixelYDimension = query_by_tag_double m EXIF_PixelYDimension"
    and "query_by_tag_double m' EXIF_FocalPlaneXResolution =
           query_by_tag_double m EXIF_FocalPlaneXResolution"
    and "query_by_tag_double m' EXIF_FocalPlaneYResolution =
           query_by_tag_double m EXIF_FocalPlaneYResolution"
    and "query_by_tag_int m' EXIF_FocalPlaneResolutionUnit =
           query_by_tag_int m EXIF_FocalPlaneResolutionUnit"
  by (simp_all add: m'_def query_by_tag_double_def query_by_tag_int_def tag_defs)

lemma compute_from_other_statistics_ignores_35mm_film:
  "compute_from_other_statistics
     (m\<lparr>get_tag_value_double := (get_tag_value_double m)(EXIF_FocalLengthIn35mmFilm := None)\<rparr>)
   = compute_from_other_statistics m"
  unfolding compute_from_other_statistics_def query_without_35mm_film
  by (rule refl)

lemma not_greater_computed_path:
  "get_tag_value_double m EXIF_FocalLengthIn35mmFilm = Some v \<Longrightarrow>
   \<not> double_less (Finite 0) v \<Longrightarrow> computed_path m"
  by (simp add: computed_path_def)

lemma removed_computed_path:
  "computed_path
     (m\<lparr>get_tag_value_double := (get_tag_value_double m)(EXIF_FocalLengthIn35mmFilm := None)\<rparr>)"
  by (simp add: computed_path_def)

lemma not_greater_as_absent:
  assumes "get_tag_value_double m EXIF_FocalLengthIn35mmFilm = Some v"
    and "\<not> double_less (Finite 0) v"
  shows "get_focal_length_35mm_equiv m = compute_from_other_statistics m"
    and "get_focal_length_35mm_equiv m =
      get_focal_length_35mm_equiv
        (m\<lparr>get_tag_value_double :=
             (get_tag_value_double m)(EXIF_FocalLengthIn35mmFilm := None)\<rparr>)"
proof -
  show a: "get_focal_length_35mm_equiv m = compute_from_other_statistics m"
    using assms by (intro get_focal_length_35mm_equiv_computed not_greater_computed_path)
  show "get_focal_length_35mm_equiv m =
      get_focal_length_35mm_equiv
        (m\<lparr>get_tag_value_double :=
             (get_tag_value_double m)(EXIF_FocalLengthIn35mmFilm := None)\<rparr>)"
    by (simp only: a get_focal_length_35mm_equiv_computed [OF removed_computed_path]
        compute_from_other_statistics_ignores_35mm_film)
qed

lemma exif_store_lookup:
  "get_tag_value_double (exif_store ds ns) t = map_of ds t"
  "get_tag_value_int (exif_store ds ns) t = map_of ns t"
  by (simp_all add: exif_store_def)

lemma sensor_tags_computed_path: "computed_path (exif_store sensor_tags ns)"
  by (simp add: computed_path_def exif_store_lookup sensor_tags_lookup)



lemma compute_from_other_statistics_illegal_unit:
  assumes "get_tag_value_double m EXIF_FocalLength = Some focal_length"
    and "get_tag_value_double m EXIF_PixelXDimension = Some x_dimension"
    and "get_tag_value_double m EXIF_PixelYDimension = Some y_dimension"
    and "get_tag_value_double m EXIF_FocalPlaneXResolution = Some x_resolution"
    and "get_tag_value_double m EXIF_FocalPlaneYResolution = Some y_resolution"
    and "get_tag_value_int m EXIF_FocalPlaneResolutionUnit = Some u"
    and "u \<noteq> 2" and "u \<noteq> 3"
  shows "\<exists>msg. compute_from_other_statistics m = Inl (InvalidValue msg)"
  using assms
  by (simp add: compute_from_other_statistics_def query_by_tag_double_def
      query_by_tag_int_def)

text \<open>
  C5. In the computed path, with the five other tags present and both resolutions
  passing their check: an absent FocalPlaneResolutionUnit gives the same as the unit
  code 2, 25.4 mm per unit; the code 3 gives 10 mm per unit; any other code signals
  InvalidValue ("Illegal value for FocalPlaneResolutionUnit"). Whether or not the
  resolutions pass their check, a code other than 2 and 3 ends in an InvalidValue.
\<close>

theorem focal_plane_resolution_unit_cases:
  "computed_path m \<and>
   get_tag_value_double m EXIF_FocalLength = Some focal_length \<and>
   get_tag_value_double m EXIF_PixelXDimension = Some x_dimension \<and>
   get_tag_value_double m EXIF_PixelYDimension = Some y_dimension \<and>
   get_tag_value_double m EXIF_FocalPlaneXResolution = Some x_resolution \<and>
   get_tag_value_double m EXIF_FocalPlaneYResolution = Some y_resolution \<longrightarrow>
     (\<not> double_le x_resolution (Finite 0) \<and> \<not> double_le y_resolution (Finite 0) \<longrightarrow>
        (get_tag_value_int m EXIF_FocalPlaneResolutionUnit = None \<longrightarrow>
           get_focal_length_35mm_equiv m =
             spec_scale_with_unit (Finite 25.4) focal_length x_resolution x_dimension
               y_resolution y_dimension) \<and>
        (get_tag_value_int m EXIF_FocalPlaneResolutionUnit = Some 2 \<longrightarrow>
           get_focal_length_35mm_equiv m =
             spec_scale_with_unit (Finite 25.4) focal_length x_resolution x_dimension
               y_resolution y_dimension) \<and>
        (get_tag_value_int m EXIF_FocalPlaneResolutionUnit = Some 3 \<longrightarrow>
           get_focal_length_35mm_equiv m =
             spec_scale_with_unit (Finite 10) focal_length x_resolution x_dimension
               y_resolution y_dimension) \<and>
        (\<forall>u. get_tag_value_int m EXIF_FocalPlaneResolutionUnit = Some u \<and> u \<noteq> 2 \<and> u \<noteq> 3 \<longrightarrow>
           get_focal_length_35mm_equiv m =
             Inl (InvalidValue ''Illegal value for FocalPlaneResolutionUnit''))) \<and>
     (\<forall>u. get_tag_value_int m EXIF_FocalPlaneResolutionUnit = Some u \<and> u \<noteq> 2 \<and> u \<noteq> 3 \<longrightarrow>
        (\<exists>msg. get_focal_length_35mm_equiv m = Inl (InvalidValue msg)))"
proof (intro impI conjI allI)
  assume h: "computed_path m \<and>
   get_tag_value_double m EXIF_FocalLength = Some focal_length \<and>
   get_tag_value_double m EXIF_PixelXDimension = Some x_dimension \<and>
   get_tag_value_double m EXIF_PixelYDimension = Some y_dimension \<and>
   get_tag_value_double m EXIF_FocalPlaneXResolution = Some x_resolution \<and>
   get_tag_value_double m EXIF_FocalPlaneYResolution = Some y_resolution"
  then have c: "get_focal_length_35mm_equiv m = compute_from_other_statistics m"
    by (simp add: get_focal_length_35mm_equiv_computed)
  {
    fix u
    assume "get_tag_value_int m EXIF_FocalPlaneResolutionUnit = Some u \<and> u \<noteq> 2 \<and> u \<noteq> 3"
    with h show "\<exists>msg. get_focal_length_35mm_equiv m = Inl (InvalidValue msg)"
      unfolding c
      by (intro compute_from_other_statistics_illegal_unit [where u = u]) simp_all
  }
  assume "\<not> double_le x_resolution (Finite 0) \<and> \<not> double_le y_resolution (Finite 0)"
  with h have r: "get_focal_length_35mm_equiv m =
     (case get_tag_value_int m EXIF_FocalPlaneResolutionUnit of
        None \<Rightarrow>
          spec_scale_with_unit (Finite 25.4) focal_length x_resolution x_dimension
            y_resolution y_dimension
      | Some u \<Rightarrow>
          if u = 2
          then spec_scale_with_unit (Finite 25.4) focal_length x_resolution x_dimension
                 y_resolution y_dimension
          else if u = 3
          then spec_scale_with_unit (Finite 10) focal_length x_resolution x_dimension
                 y_resolution y_dimension
          else Inl (InvalidValue ''Illegal value for FocalPlaneResolutionUnit''))"
    unfolding c
    by (intro compute_from_other_statistics_unit) simp_all
  {
    assume "get_tag_value_int m EXIF_FocalPlaneResolutionUnit = None"
    with r show "get_focal_length_35mm_equiv m =
        spec_scale_with_unit (Finite 25.4) focal_length x_resolution x_dimension
          y_resolution y_dimension"
      by simp
  }
  {
    assume "get_tag_value_int m EXIF_FocalPlaneResolutionUnit = Some 2"
    with r show "get_focal_length_35mm_equiv m =
        spec_scale_with_unit (Finite 25.4) focal_length x_resolution x_dimension
          y_resolution y_dimension"
      by simp
  }
  {
    assume "get_tag_value_int m EXIF_FocalPlaneResolutionUnit = Some 3"
    with r show "get_focal_length_35mm_equiv m =
        spec_scale_with_unit (Finite 10) focal_length x_resolution x_dimension
          y_resolution y_dimension"
      by simp
  }
  {
    fix u
    assume "get_tag_value_int m EXIF_FocalPlaneResolutionUnit = Some u \<and> u \<noteq> 2 \<and> u \<noteq> 3"
    with r show "get_focal_length_35mm_equiv m =
        Inl (InvalidValue ''Illegal value for FocalPlaneResolutionUnit'')"
      by simp
  }
qed

text \<open>
  The example store without the unit tag gives the value computed with 25.4 mm; with the
  unit 3 the value computed with 10 mm; with the unit 5 it signals InvalidValue.
\<close>

theorem focal_plane_resolution_unit_cases_witness:
  "\<not> double_le (Finite 4000) (Finite 0) \<and> \<not> double_le (Finite 3000) (Finite 0) \<and>
   computed_path (exif_store sensor_tags []) \<and>
   get_tag_value_double (exif_store sensor_tags []) EXIF_FocalLength = Some (Finite 50) \<and>
   get_tag_value_double (exif_store sensor_tags []) EXIF_PixelXDimension = Some (Finite 4000) \<and>
   get_tag_value_double (exif_store sensor_tags []) EXIF_PixelYDimension = Some (Finite 3000) \<and>
   get_tag_value_double (exif_store sensor_tags []) EXIF_FocalPlaneXResolution = Some (Finite 4000) \<and>
   get_tag_value_double (exif_store sensor_tags []) EXIF_FocalPlaneYResolution = Some (Finite 3000) \<and>
   get_tag_value_int (exif_store sensor_tags []) EXIF_FocalPlaneResolutionUnit = None \<and>
   get_focal_length_35mm_equiv (exif_store sensor_tags []) =
     Inr (Finite (50 * sqrt 1872 / sqrt (25.4\<^sup>2 + 25.4\<^sup>2))) \<and>
   computed_path (exif_store sensor_tags [(EXIF_FocalPlaneResolutionUnit, 3)]) \<and>
   get_tag_value_double (exif_store sensor_tags [(EXIF_FocalPlaneResolutionUnit, 3)]) EXIF_FocalLength = Some (Finite 50) \<and>
   get_tag_value_double (exif_store sensor_tags [(EXIF_FocalPlaneResolutionUnit, 3)]) EXIF_PixelXDimension = Some (Finite 4000) \<and>
   get_tag_value_double (exif_store sensor_tags [(EXIF_FocalPlaneResolutionUnit, 3)]) EXIF_PixelYDimension = Some (Finite 3000) \<and>
   get_tag_value_double (exif_store sensor_tags [(EXIF_FocalPlaneResolutionUnit, 3)]) EXIF_FocalPlaneXResolution = Some (Finite 4000) \<and>
   get_tag_value_double (exif_store sensor_tags [(EXIF_FocalPlaneResolutionUnit, 3)]) EXIF_FocalPlaneYResolution = Some (Finite 3000) \<and>
   get_tag_value_int (exif_store sensor_tags [(EXIF_FocalPlaneResolutionUnit, 3)])
     EXIF_FocalPlaneResolutionUnit = Some 3 \<and>
   get_focal_length_35mm_equiv (exif_store sensor_tags [(EXIF_FocalPlaneResolutionUnit, 3)]) =
     Inr (Finite (50 * sqrt 1872 / sqrt (10\<^sup>2 + 10\<^sup>2))) \<and>
   computed_path (exif_store sensor_tags [(EXIF_FocalPlaneResolutionUnit, 5)]) \<and>
   get_tag_value_double (exif_store sensor_tags [(EXIF_FocalPlaneResolutionUnit, 5)]) EXIF_FocalLength = Some (Finite 50) \<and>
   get_tag_value_double (exif_store sensor_tags [(EXIF_FocalPlaneResolutionUnit, 5)]) EXIF_PixelXDimension = Some (Finite 4000) \<and>
   get_tag_value_double (exif_store sensor_tags [(EXIF_FocalPlaneResolutionUnit, 5)]) EXIF_PixelYDimension = Some (Finite 3000) \<and>
   get_tag_value_double (exif_store sensor_tags [(EXIF_FocalPlaneResolutionUnit, 5)]) EXIF_FocalPlaneXResolution = Some (Finite 4000) \<and>
   get_tag_value_double (exif_store sensor_tags [(EXIF_FocalPlaneResolutionUnit, 5)]) EXIF_FocalPlaneYResolution = Some (Finite 3000) \<and>
   get_tag_value_int (exif_store sensor_tags [(EXIF_FocalPlaneResolutionUnit, 5)])
     EXIF_FocalPlaneResolutionUnit = Some 5 \<and>
   (5 :: 32 word) \<noteq> 2 \<and> (5 :: 32 word) \<noteq> 3 \<and>
   get_focal_length_35mm_equiv (exif_store sensor_tags [(EXIF_FocalPlaneResolutionUnit, 5)]) =
     Inl (InvalidValue ''Illegal value for FocalPlaneResolutionUnit'')"
  using
    focal_plane_resolution_unit_cases
      [where m = "exif_store sensor_tags []" and focal_length = "Finite 50"
         and x_dimension = "Finite 4000" and y_dimension = "Finite 3000"
         and x_resolution = "Finite 4000" and y_resolution = "Finite 3000"]
    focal_plane_resolution_unit_cases
      [where m = "exif_store sensor_tags [(EXIF_FocalPlaneResolutionUnit, 3)]" and focal_length = "Finite 50"
         and x_dimension = "Finite 4000" and y_dimension = "Finite 3000"
         and x_resolution = "Finite 4000" and y_resolution = "Finite 3000"]
    focal_plane_resolution_unit_cases
      [where m = "exif_store sensor_tags [(EXIF_FocalPlaneResolutionUnit, 5)]" and focal_length = "Finite 50"
         and x_dimension = "Finite 4000" and y_dimension = "Finite 3000"
         and x_resolution = "Finite 4000" and y_resolution = "Finite 3000"]
  by (simp add: exif_store_lookup sensor_tags_lookup sensor_tags_computed_path
      double_le_def scale_example EXIF_FocalPlaneResolutionUnit_def)

lemma negative_not_greater: "x < 0 \<Longrightarrow> \<not> double_less (Finite 0) (Finite x)"
  by (simp add: double_less_def)

lemma negative_35mm_store_lookup:
  "get_tag_value_double negative_35mm_store EXIF_FocalLengthIn35mmFilm = Some (Finite (- 35))"
  "get_tag_value_double negative_35mm_store EXIF_FocalLength = Some (Finite 50)"
  "get_tag_value_double negative_35mm_store EXIF_PixelXDimension = Some (Finite 4000)"
  "get_tag_value_double negative_35mm_store EXIF_PixelYDimension = Some (Finite 3000)"
  "get_tag_value_double negative_35mm_store EXIF_FocalPlaneXResolution = Some (Finite 4000)"
  "get_tag_value_double negative_35mm_store EXIF_FocalPlaneYResolution = Some (Finite 3000)"
  "get_tag_value_int negative_35mm_store EXIF_FocalPlaneResolutionUnit = Some 2"
  by (simp_all add: negative_35mm_store_def exif_store_def sensor_tags_def tag_defs)

lemma negative_35mm_store_computed:
  "compute_from_other_statistics negative_35mm_store
   = Inr (Finite (50 * sqrt 1872 / sqrt (25.4\<^sup>2 + 25.4\<^sup>2)))"
  by (subst compute_from_other_statistics_unit
        [where focal_length = "Finite 50" and x_dimension = "Finite 4000"
           and y_dimension = "Finite 3000" and x_resolution = "Finite 4000"
           and y_resolution = "Finite 3000"])
     (simp_all add: negative_35mm_store_lookup double_le_def scale_example)

text \<open>
  C9. When FocalLengthIn35mmFilm is present with a value that is not greater than 0, a
  negative one in particular, \<^verbatim>\<open>get_focal_length_35mm_equiv\<close> does not return it and
  signals nothing for it: the query is the computation from the other tags, and its
  result is the one for the same store with the tag removed.
\<close>

theorem get_focal_length_35mm_equiv_not_greater:
  "(get_tag_value_double m EXIF_FocalLengthIn35mmFilm = Some v \<and>
    \<not> double_less (Finite 0) v \<longrightarrow>
      get_focal_length_35mm_equiv m = compute_from_other_statistics m \<and>
      get_focal_length_35mm_equiv m =
        get_focal_length_35mm_equiv
          (m\<lparr>get_tag_value_double :=
               (get_tag_value_double m)(EXIF_FocalLengthIn35mmFilm := None)\<rparr>)) \<and>
   (get_tag_value_double m EXIF_FocalLengthIn35mmFilm = Some (Finite x) \<and> x < 0 \<longrightarrow>
      get_focal_length_35mm_equiv m = compute_from_other_statistics m \<and>
      get_focal_length_35mm_equiv m =
        get_focal_length_35mm_equiv
          (m\<lparr>get_tag_value_double :=
               (get_tag_value_double m)(EXIF_FocalLengthIn35mmFilm := None)\<rparr>))"
proof (intro conjI impI)
  assume h: "get_tag_value_double m EXIF_FocalLengthIn35mmFilm = Some v \<and>
    \<not> double_less (Finite 0) v"
  then show "get_focal_length_35mm_equiv m = compute_from_other_statistics m"
    by (intro not_greater_as_absent(1) [where v = v]) simp_all
  from h show "get_focal_length_35mm_equiv m =
        get_focal_length_35mm_equiv
          (m\<lparr>get_tag_value_double :=
               (get_tag_value_double m)(EXIF_FocalLengthIn35mmFilm := None)\<rparr>)"
    by (intro not_greater_as_absent(2) [where v = v]) simp_all
next
  assume h: "get_tag_value_double m EXIF_FocalLengthIn35mmFilm = Some (Finite x) \<and> x < 0"
  then show "get_focal_length_35mm_equiv m = compute_from_other_statistics m"
    by (intro not_greater_as_absent(1) [where v = "Finite x"])
       (simp_all add: negative_not_greater)
  from h show "get_focal_length_35mm_equiv m =
        get_focal_length_35mm_equiv
          (m\<lparr>get_tag_value_double :=
               (get_tag_value_double m)(EXIF_FocalLengthIn35mmFilm := None)\<rparr>)"
    by (intro not_greater_as_absent(2) [where v = "Finite x"])
       (simp_all add: negative_not_greater)
qed

text \<open>
  The example store with FocalLengthIn35mmFilm -35 added gives the value computed from
  the other tags, not -35 and not an error.
\<close>

theorem get_focal_length_35mm_equiv_not_greater_witness:
  "get_tag_value_double negative_35mm_store EXIF_FocalLengthIn35mmFilm = Some (Finite (- 35)) \<and>
   (- 35 :: real) < 0 \<and>
   \<not> double_less (Finite 0) (Finite (- 35)) \<and>
   get_focal_length_35mm_equiv negative_35mm_store
   = Inr (Finite (50 * sqrt 1872 / sqrt (25.4\<^sup>2 + 25.4\<^sup>2)))"
  using get_focal_length_35mm_equiv_not_greater
      [where m = negative_35mm_store and v = "Finite (- 35)" and x = "- 35"]
    negative_35mm_store_computed
  by (simp add: negative_35mm_store_lookup double_less_def)

lemma zero_resolution_store_lookup:
  "get_tag_value_double zero_resolution_store EXIF_FocalLengthIn35mmFilm = None"
  "get_tag_value_double zero_resolution_store EXIF_FocalLength = Some (Finite 50)"
  "get_tag_value_double zero_resolution_store EXIF_PixelXDimension = Some (Finite 4000)"
  "get_tag_value_double zero_resolution_store EXIF_PixelYDimension = Some (Finite 3000)"
  "get_tag_value_double zero_resolution_store EXIF_FocalPlaneXResolution = Some (Finite 0)"
  "get_tag_value_double zero_resolution_store EXIF_FocalPlaneYResolution = None"
  by (simp_all add: zero_resolution_store_def exif_store_def tag_defs)

text \<open>
  C4, as the code has it. In the computed path a store that misses one of the five tags
  makes the query fail. The tags are looked up in the order FocalLength,
  PixelXDimension, PixelYDimension, FocalPlaneXResolution, FocalPlaneYResolution, and the
  failure is TagNotFound for the first missing one, with one exception:
  FocalPlaneXResolution is checked before FocalPlaneYResolution is looked up, so when
  the first four are present, FocalPlaneXResolution is not greater than 0 and
  FocalPlaneYResolution is missing, the failure is InvalidValue ("Illegal value for
  FocalPlaneXResolution").
\<close>

theorem computed_path_missing_tag:
  "computed_path m \<longrightarrow>
     (get_tag_value_double m EXIF_FocalLength = None \<longrightarrow>
        get_focal_length_35mm_equiv m = Inl (TagNotFound EXIF_FocalLength)) \<and>
     (get_tag_value_double m EXIF_FocalLength \<noteq> None \<and>
      get_tag_value_double m EXIF_PixelXDimension = None \<longrightarrow>
        get_focal_length_35mm_equiv m = Inl (TagNotFound EXIF_PixelXDimension)) \<and>
     (get_tag_value_double m EXIF_FocalLength \<noteq> None \<and>
      get_tag_value_double m EXIF_PixelXDimension \<noteq> None \<and>
      get_tag_value_double m EXIF_PixelYDimension = None \<longrightarrow>
        get_focal_length_35mm_equiv m = Inl (TagNotFound EXIF_PixelYDimension)) \<and>
     (get_tag_value_double m EXIF_FocalLength \<noteq> None \<and>
      get_tag_value_double m EXIF_PixelXDimension \<noteq> None \<and>
      get_tag_value_double m EXIF_PixelYDimension \<noteq> None \<and>
      get_tag_value_double m EXIF_FocalPlaneXResolution = None \<longrightarrow>
        get_focal_length_35mm_equiv m = Inl (TagNotFound EXIF_FocalPlaneXResolution)) \<and>
     (get_tag_value_double m EXIF_FocalLength \<noteq> None \<and>
      get_tag_value_double m EXIF_PixelXDimension \<noteq> None \<and>
      get_tag_value_double m EXIF_PixelYDimension \<noteq> None \<and>
      get_tag_value_double m EXIF_FocalPlaneXResolution = Some x_resolution \<and>
      get_tag_value_double m EXIF_FocalPlaneYResolution = None \<longrightarrow>
        get_focal_length_35mm_equiv m =
          (if double_le x_resolution (Finite 0)
           then Inl (InvalidValue ''Illegal value for FocalPlaneXResolution'')
           else Inl (TagNotFound EXIF_FocalPlaneYResolution))) \<and>
     (get_tag_value_double m EXIF_FocalLength = None \<or>
      get_tag_value_double m EXIF_PixelXDimension = None \<or>
      get_tag_value_double m EXIF_PixelYDimension = None \<or>
      get_tag_value_double m EXIF_FocalPlaneXResolution = None \<or>
      get_tag_value_double m EXIF_FocalPlaneYResolution = None \<longrightarrow>
        (\<exists>e. get_focal_length_35mm_equiv m = Inl e))"
proof
  assume "computed_path m"
  then have c: "get_focal_length_35mm_equiv m = compute_from_other_statistics m"
    by (rule get_focal_length_35mm_equiv_computed)
  show "(get_tag_value_double m EXIF_FocalLength = None \<longrightarrow>
        get_focal_length_35mm_equiv m = Inl (TagNotFound EXIF_FocalLength)) \<and>
     (get_tag_value_double m EXIF_FocalLength \<noteq> None \<and>
      get_tag_value_double m EXIF_PixelXDimension = None \<longrightarrow>
        get_focal_length_35mm_equiv m = Inl (TagNotFound EXIF_PixelXDimension)) \<and>
     (get_tag_value_double m EXIF_FocalLength \<noteq> None \<and>
      get_tag_value_double m EXIF_PixelXDimension \<noteq> None \<and>
      get_tag_value_double m EXIF_PixelYDimension = None \<longrightarrow>
        get_focal_length_35mm_equiv m = Inl (TagNotFound EXIF_PixelYDimension)) \<and>
     (get_tag_value_double m EXIF_FocalLength \<noteq> None \<and>
      get_tag_value_double m EXIF_PixelXDimension \<noteq> None \<and>
      get_tag_value_double m EXIF_PixelYDimension \<noteq> None \<and>
      get_tag_value_double m EXIF_FocalPlaneXResolution = None \<longrightarrow>
        get_focal_length_35mm_equiv m = Inl (TagNotFound EXIF_FocalPlaneXResolution)) \<and>
     (get_tag_value_double m EXIF_FocalLength \<noteq> None \<and>
      get_tag_value_double m EXIF_PixelXDimension \<noteq> None \<and>
      get_tag_value_double m EXIF_PixelYDimension \<noteq> None \<and>
      get_tag_value_double m EXIF_FocalPlaneXResolution = Some x_resolution \<and>
      get_tag_value_double m EXIF_FocalPlaneYResolution = None \<longrightarrow>
        get_focal_length_35mm_equiv m =
          (if double_le x_resolution (Finite 0)
           then Inl (InvalidValue ''Illegal value for FocalPlaneXResolution'')
           else Inl (TagNotFound EXIF_FocalPlaneYResolution))) \<and>
     (get_tag_value_double m EXIF_FocalLength = None \<or>
      get_tag_value_double m EXIF_PixelXDimension = None \<or>
      get_tag_value_double m EXIF_PixelYDimension = None \<or>
      get_tag_value_double m EXIF_FocalPlaneXResolution = None \<or>
      get_tag_value_double m EXIF_FocalPlaneYResolution = None \<longrightarrow>
        (\<exists>e. get_focal_length_35mm_equiv m = Inl e))"
    unfolding c
    by (auto simp add: compute_from_other_statistics_def query_by_tag_double_def
        split: option.splits)
qed

text \<open>
  The empty store fails with TagNotFound for FocalLength; the store with resolution 0
  and no FocalPlaneYResolution fails with InvalidValue.
\<close>

theorem computed_path_missing_tag_witness:
  "computed_path (exif_store [] []) \<and>
   get_tag_value_double (exif_store [] []) EXIF_FocalLength = None \<and>
   get_focal_length_35mm_equiv (exif_store [] []) = Inl (TagNotFound EXIF_FocalLength) \<and>
   computed_path zero_resolution_store \<and>
   get_tag_value_double zero_resolution_store EXIF_FocalLength \<noteq> None \<and>
   get_tag_value_double zero_resolution_store EXIF_PixelXDimension \<noteq> None \<and>
   get_tag_value_double zero_resolution_store EXIF_PixelYDimension \<noteq> None \<and>
   get_tag_value_double zero_resolution_store EXIF_FocalPlaneXResolution = Some (Finite 0) \<and>
   get_tag_value_double zero_resolution_store EXIF_FocalPlaneYResolution = None \<and>
   double_le (Finite 0) (Finite 0) \<and>
   get_focal_length_35mm_equiv zero_resolution_store =
     Inl (InvalidValue ''Illegal value for FocalPlaneXResolution'')"
  using
    computed_path_missing_tag [where m = "exif_store [] []"]
    computed_path_missing_tag [where m = zero_resolution_store and x_resolution = "Finite 0"]
  by (simp add: computed_path_def exif_store_lookup zero_resolution_store_lookup
      double_le_def)

text \<open>
  C4, as the claim has it, fails: the store with FocalLength 50, PixelXDimension 4000,
  PixelYDimension 3000 and FocalPlaneXResolution 0 is in the computed path and misses
  FocalPlaneYResolution, and the query fails with InvalidValue, not with TagNotFound.
\<close>

theorem missing_tag_invalid_value_counterexample:
  "get_tag_value_double zero_resolution_store EXIF_FocalLengthIn35mmFilm = None \<and>
   get_tag_value_double zero_resolution_store EXIF_FocalPlaneYResolution = None \<and>
   get_focal_length_35mm_equiv zero_resolution_store =
     Inl (InvalidValue ''Illegal value for FocalPlaneXResolution'') \<and>
   get_focal_length_35mm_equiv zero_resolution_store \<noteq>
     Inl (TagNotFound EXIF_FocalPlaneYResolution)"
  by (simp add: get_focal_length_35mm_equiv_def compute_from_other_statistics_def
      query_by_tag_double_def zero_resolution_store_lookup double_le_def)

section \<open>The APEX conversions in exact arithmetic\<close>

text \<open>
  On finite values, where the model computes exactly, the conversion of
  \<^verbatim>\<open>get_f_number\<close> and the conversion of \<^verbatim>\<open>get_aperture_value\<close> undo each other: the
  first after the second on every finite aperture value, the second after the first on
  every positive finite f-number. Rounding is not part of the model, so these say
  nothing about the error of the two conversions on doubles.
\<close>

lemma aperture_value_of_f_number:
  "double_div
     (double_mul (Finite 2) (log_double (pow_2 (double_mul (Finite a) (Finite 0.5)))))
     (log_double (Finite 2)) = Finite a"
  by (simp add: double_defs)

lemma f_number_of_aperture_value:
  assumes "0 < n"
  shows "pow_2
     (double_mul
        (double_div (double_mul (Finite 2) (log_double (Finite n))) (log_double (Finite 2)))
        (Finite 0.5)) = Finite n"
proof -
  have "2 powr (ln n / ln 2) = n"
    using assms by (simp add: powr_def)
  with assms show ?thesis
    by (simp add: double_defs)
qed

end
